theory Spec2Isabelle
  imports Main "HOL-Library.Char_ord" "HOL-Library.List_Lexorder" "HOL-Library.Multiset"
begin

section \<open>The Fixer currency book: Python values, exceptions and the runtime\<close>

text \<open>
  The book (\<^verbatim>\<open>src/fixed_currency_data/book.py\<close>) issues one HTTP GET per operation,
  reads the JSON document of the answer with \<^verbatim>\<open>dict.get\<close>, and renders a string.
  The document is whatever the remote side sent, so the model keeps Python's dynamic
  values: every \<^verbatim>\<open>.get\<close>, \<^verbatim>\<open>.items()\<close>, division and conversion of the source is a
  step that can raise, and every raise is a value \<open>Inl e\<close>.
\<close>

subsection \<open>Exceptions\<close>

text \<open>
  The exception classes the operations can meet. All of them derive from Python's
  \<^verbatim>\<open>Exception\<close>. \<open>JSONDecodeError\<close> is \<^verbatim>\<open>requests.exceptions.JSONDecodeError\<close>, which
  derives from \<^verbatim>\<open>json.JSONDecodeError\<close> and through it from \<^verbatim>\<open>ValueError\<close>;
  \<open>InvalidURL\<close> is \<^verbatim>\<open>requests.exceptions.InvalidURL\<close>, declared as
  \<^verbatim>\<open>class InvalidURL(RequestException, ValueError)\<close>. \<open>OtherException name derives\<close> is
  any further class, \<open>derives\<close> telling whether \<^verbatim>\<open>ValueError\<close> is among its bases.
\<close>

datatype exc_class =
    ValueError
  | JSONDecodeError
  | InvalidURL
  | AttributeError
  | TypeError
  | OverflowError
  | ZeroDivisionError
  | ConnectionError
  | Timeout
  | OtherException string bool

text \<open>An exception instance: its class and \<^verbatim>\<open>str(e)\<close>.\<close>

datatype py_exc = Exc (cls: exc_class) (msg: string)

fun isinstance_ValueError :: "exc_class \<Rightarrow> bool" where
  "isinstance_ValueError ValueError = True"
| "isinstance_ValueError JSONDecodeError = True"
| "isinstance_ValueError InvalidURL = True"
| "isinstance_ValueError (OtherException name derives) = derives"
| "isinstance_ValueError c = False"

fun isinstance_Exception :: "exc_class \<Rightarrow> bool" where
  "isinstance_Exception c = True"

text \<open>Sequencing of steps that can raise: the first exception ends the block.\<close>

fun bind_exc :: "py_exc + 'a \<Rightarrow> ('a \<Rightarrow> py_exc + 'b) \<Rightarrow> py_exc + 'b" where
  "bind_exc (Inl e) k = Inl e"
| "bind_exc (Inr x) k = k x"

text \<open>
  \<^verbatim>\<open>try: body except C1: h1 except C2 as e: h2\<close>. The handlers are tried in the order
  they are written; an exception no handler matches propagates.
\<close>

fun try_except ::
  "py_exc + 'a \<Rightarrow> ((exc_class \<Rightarrow> bool) \<times> (py_exc \<Rightarrow> py_exc + 'a)) list \<Rightarrow> py_exc + 'a" where
  "try_except (Inr v) hs = Inr v"
| "try_except (Inl e) [] = Inl e"
| "try_except (Inl e) ((matches, handler) # hs) =
     (if matches (cls e) then handler e else try_except (Inl e) hs)"

subsection \<open>Values\<close>

text \<open>
  What \<^verbatim>\<open>response.json()\<close> can return. \<open>'f\<close> is the type of Python's floats. A
  \<open>PDict\<close> lists the items of a dict in insertion order; the keys of a dict are
  pairwise distinct (\<open>dict_ok\<close>).
\<close>

datatype 'f pyval =
    PNone
  | PBool bool
  | PInt int
  | PFloat 'f
  | PStr string
  | PList "'f pyval list"
  | PDict "(string \<times> 'f pyval) list"

definition dict_ok :: "(string \<times> 'f pyval) list \<Rightarrow> bool" where
  "dict_ok items = distinct (map fst items)"

fun type_name :: "'f pyval \<Rightarrow> string" where
  "type_name PNone = ''NoneType''"
| "type_name (PBool b) = ''bool''"
| "type_name (PInt n) = ''int''"
| "type_name (PFloat f) = ''float''"
| "type_name (PStr s) = ''str''"
| "type_name (PList xs) = ''list''"
| "type_name (PDict items) = ''dict''"

subsection \<open>The runtime's primitives\<close>

text \<open>
  Float arithmetic, the conversions to float and the \<^verbatim>\<open>repr\<close> of floats, strings and
  containers belong to the Python runtime, not to the book. The operations take them
  as a parameter, and the theorems hold for every runtime unless they say otherwise.
  \<open>None\<close> is the primitive's exception: \<^verbatim>\<open>ValueError\<close> for \<^verbatim>\<open>float(s)\<close>,
  \<^verbatim>\<open>OverflowError\<close> for \<^verbatim>\<open>float(n)\<close> and for \<^verbatim>\<open>m / n\<close> on integers.
\<close>

datatype sign0 = Negative | Zero | Positive | NotANumber

record 'f runtime =
  float_sign :: "'f \<Rightarrow> sign0"
  float_of_int :: "int \<Rightarrow> 'f option"
  float_of_str :: "string \<Rightarrow> 'f option"
  int_truediv :: "int \<Rightarrow> int \<Rightarrow> 'f option"
  float_truediv :: "'f \<Rightarrow> 'f \<Rightarrow> 'f"
  float_mul :: "'f \<Rightarrow> 'f \<Rightarrow> 'f"
  float_fixed :: "nat \<Rightarrow> 'f \<Rightarrow> string"
  repr_of :: "'f pyval \<Rightarrow> string"

subsection \<open>Strings\<close>

definition upper_char :: "char \<Rightarrow> char" where
  "upper_char c =
     (case map_of (zip ''abcdefghijklmnopqrstuvwxyz'' ''ABCDEFGHIJKLMNOPQRSTUVWXYZ'') c of
        None \<Rightarrow> c
      | Some u \<Rightarrow> u)"

text \<open>\<^verbatim>\<open>str.upper()\<close>, on ASCII letters.\<close>

definition upper :: "string \<Rightarrow> string" where
  "upper s = map upper_char s"

text \<open>\<^verbatim>\<open>sep.join(parts)\<close>.\<close>

fun join :: "string \<Rightarrow> string list \<Rightarrow> string" where
  "join sep [] = []"
| "join sep [p] = p"
| "join sep (p # q # ps) = p @ sep @ join sep (q # ps)"

text \<open>\<^verbatim>\<open>str(i)\<close> for an integer: its decimal digits.\<close>

function str_digits :: "int \<Rightarrow> string" where
  "str_digits n =
     (if n < 10 then [''0123456789'' ! nat n]
      else str_digits (n div 10) @ [''0123456789'' ! nat (n mod 10)])"
  by pat_completeness auto
termination
  by (relation "measure nat") auto

declare str_digits.simps [simp del]

definition str_int :: "int \<Rightarrow> string" where
  "str_int i = (if i < 0 then CHR ''-'' # str_digits (- i) else str_digits i)"

text \<open>
  \<^verbatim>\<open>f"{v}"\<close>: \<^verbatim>\<open>format(v, "")\<close>, which is \<^verbatim>\<open>str(v)\<close> for every value of a JSON document.
\<close>

fun py_str :: "'f runtime \<Rightarrow> 'f pyval \<Rightarrow> string" where
  "py_str rt PNone = ''None''"
| "py_str rt (PBool b) = (if b then ''True'' else ''False'')"
| "py_str rt (PInt n) = str_int n"
| "py_str rt (PStr s) = s"
| "py_str rt v = repr_of rt v"

subsection \<open>Truth values, attribute access, numbers\<close>

text \<open>\<^verbatim>\<open>bool(v)\<close>, as \<^verbatim>\<open>not v\<close> and \<^verbatim>\<open>if v\<close> use it.\<close>

fun truthy :: "'f runtime \<Rightarrow> 'f pyval \<Rightarrow> bool" where
  "truthy rt PNone = False"
| "truthy rt (PBool b) = b"
| "truthy rt (PInt n) = (n \<noteq> 0)"
| "truthy rt (PFloat f) = (float_sign rt f \<noteq> Zero)"
| "truthy rt (PStr s) = (s \<noteq> [])"
| "truthy rt (PList xs) = (xs \<noteq> [])"
| "truthy rt (PDict items) = (items \<noteq> [])"

text \<open>A name between single quotes, as Python's messages show it.\<close>

definition quoted :: "string \<Rightarrow> string" where
  "quoted s = CHR 0x27 # s @ [CHR 0x27]"

definition attribute_error :: "'f pyval \<Rightarrow> string \<Rightarrow> py_exc" where
  "attribute_error v name =
     Exc AttributeError (quoted (type_name v) @ '' object has no attribute '' @ quoted name)"

text \<open>The value stored under a key of a dict, or the default.\<close>

definition lookup :: "(string \<times> 'f pyval) list \<Rightarrow> string \<Rightarrow> 'f pyval \<Rightarrow> 'f pyval" where
  "lookup items key dflt = (case map_of items key of None \<Rightarrow> dflt | Some v \<Rightarrow> v)"

text \<open>\<^verbatim>\<open>v.get(key, default)\<close>: only a dict has the method.\<close>

fun py_get :: "'f pyval \<Rightarrow> string \<Rightarrow> 'f pyval \<Rightarrow> py_exc + 'f pyval" where
  "py_get (PDict items) key dflt = Inr (lookup items key dflt)"
| "py_get v key dflt = Inl (attribute_error v ''get'')"

text \<open>\<^verbatim>\<open>v.items()\<close>.\<close>

fun py_items :: "'f pyval \<Rightarrow> py_exc + (string \<times> 'f pyval) list" where
  "py_items (PDict items) = Inr items"
| "py_items v = Inl (attribute_error v ''items'')"

text \<open>
  \<^verbatim>\<open>sorted(d.items())\<close>: a stable sort of the (key, value) pairs. The keys of a dict
  are distinct, so the comparison of two pairs is decided by their keys and never
  looks at the values; strings compare by code point.
\<close>

definition sorted_items :: "(string \<times> 'f pyval) list \<Rightarrow> (string \<times> 'f pyval) list" where
  "sorted_items items = sort_key fst items"

datatype 'f number = IntNum int | FloatNum 'f

fun as_number :: "'f pyval \<Rightarrow> 'f number option" where
  "as_number (PBool b) = Some (IntNum (if b then 1 else 0))"
| "as_number (PInt n) = Some (IntNum n)"
| "as_number (PFloat f) = Some (FloatNum f)"
| "as_number v = None"

fun to_float :: "'f runtime \<Rightarrow> 'f number \<Rightarrow> py_exc + 'f" where
  "to_float rt (FloatNum f) = Inr f"
| "to_float rt (IntNum n) =
     (case float_of_int rt n of
        None \<Rightarrow> Inl (Exc OverflowError ''int too large to convert to float'')
      | Some f \<Rightarrow> Inr f)"

text \<open>
  \<^verbatim>\<open>a / b\<close>. Two integers (a bool is an integer) divide exactly and round once; with a
  float on either side both operands are converted to float, left one first, and the
  divisor is then tested for zero. Anything else has no \<^verbatim>\<open>/\<close>.
\<close>

fun number_truediv :: "'f runtime \<Rightarrow> 'f number \<Rightarrow> 'f number \<Rightarrow> py_exc + 'f" where
  "number_truediv rt (IntNum m) (IntNum n) =
     (if n = 0 then Inl (Exc ZeroDivisionError ''division by zero'')
      else case int_truediv rt m n of
             None \<Rightarrow> Inl (Exc OverflowError ''integer division result too large for a float'')
           | Some f \<Rightarrow> Inr f)"
| "number_truediv rt x y =
     bind_exc (to_float rt x) (\<lambda>a.
     bind_exc (to_float rt y) (\<lambda>b.
       if float_sign rt b = Zero then Inl (Exc ZeroDivisionError ''float division by zero'')
       else Inr (float_truediv rt a b)))"

definition py_truediv :: "'f runtime \<Rightarrow> 'f pyval \<Rightarrow> 'f pyval \<Rightarrow> py_exc + 'f" where
  "py_truediv rt a b =
     (case (as_number a, as_number b) of
        (Some x, Some y) \<Rightarrow> number_truediv rt x y
      | _ \<Rightarrow> Inl (Exc TypeError (''unsupported operand type(s) for /: '' @ quoted (type_name a)
                  @ '' and '' @ quoted (type_name b))))"

text \<open>\<^verbatim>\<open>v <= 0\<close>.\<close>

definition py_le_zero :: "'f runtime \<Rightarrow> 'f pyval \<Rightarrow> py_exc + bool" where
  "py_le_zero rt v =
     (case as_number v of
        Some (IntNum n) \<Rightarrow> Inr (n \<le> 0)
      | Some (FloatNum f) \<Rightarrow> Inr (float_sign rt f = Negative \<or> float_sign rt f = Zero)
      | None \<Rightarrow> Inl (Exc TypeError (quoted ''<='' @ '' not supported between instances of ''
                  @ quoted (type_name v) @ '' and '' @ quoted ''int'')))"

text \<open>\<^verbatim>\<open>float(s)\<close> for a string \<open>s\<close>.\<close>

definition py_float :: "'f runtime \<Rightarrow> string \<Rightarrow> py_exc + 'f" where
  "py_float rt s =
     (case float_of_str rt s of
        None \<Rightarrow> Inl (Exc ValueError (''could not convert string to float: '' @ repr_of rt (PStr s)))
      | Some f \<Rightarrow> Inr f)"

section \<open>The book\<close>

subsection \<open>State and transport\<close>

definition FIXED_CURRENCY_DATA_BASE_URL :: string where
  "FIXED_CURRENCY_DATA_BASE_URL = ''https://data.fixer.io/api''"

definition DEFAULT_TIMEOUT :: int where
  "DEFAULT_TIMEOUT = 30"

text \<open>The instance: \<^verbatim>\<open>self._base_url\<close> and \<^verbatim>\<open>self._timeout\<close>.\<close>

record 'f book =
  base_url :: string
  stored_timeout :: "'f pyval"

text \<open>
  \<^verbatim>\<open>requests.get(url, timeout=t)\<close> either raises or returns a response, whose
  \<^verbatim>\<open>.json()\<close> either raises or returns the parsed document. The transport is the
  environment of the book: a function of the URL and the deadline it is called with.
\<close>

datatype 'f response = Response (json: "py_exc + 'f pyval")

type_synonym 'f requests = "string \<Rightarrow> 'f pyval \<Rightarrow> py_exc + 'f response"

text \<open>\<^verbatim>\<open>__init__\<close>: \<^verbatim>\<open>float(DEFAULT_TIMEOUT)\<close> is the runtime's conversion.\<close>

definition init :: "'f runtime \<Rightarrow> py_exc + 'f book" where
  "init rt =
     bind_exc (to_float rt (IntNum DEFAULT_TIMEOUT)) (\<lambda>t.
       Inr \<lparr>base_url = FIXED_CURRENCY_DATA_BASE_URL, stored_timeout = PFloat t\<rparr>)"

text \<open>The property \<^verbatim>\<open>timeout\<close>: its getter and its setter.\<close>

definition timeout :: "'f book \<Rightarrow> 'f pyval" where
  "timeout self = stored_timeout self"

text \<open>
  The setter returns what the assignment does (\<open>Inl\<close> the exception raised) together
  with the instance as the assignment leaves it.
\<close>

definition timeout_setter ::
  "'f runtime \<Rightarrow> 'f book \<Rightarrow> 'f pyval \<Rightarrow> (py_exc + unit) \<times> 'f book" where
  "timeout_setter rt self t =
     (case py_le_zero rt t of
        Inl e \<Rightarrow> (Inl e, self)
      | Inr True \<Rightarrow> (Inl (Exc ValueError ''timeout must be positive''), self)
      | Inr False \<Rightarrow> (Inr (), self\<lparr>stored_timeout := t\<rparr>))"

definition say_hello :: "'f book \<Rightarrow> string" where
  "say_hello self =
     ''Hello from Fixer currency exchange book! Use other procedures with your Fixer.io API key.''"

subsection \<open>The four fetching operations\<close>

text \<open>
  Each operation is a \<^verbatim>\<open>try\<close> block, here the \<open>_body\<close> function, under its handlers.
  The part of a body that follows \<^verbatim>\<open>data = response.json()\<close> is a function of the
  document alone (\<open>_render\<close>).
\<close>

text \<open>The branch \<^verbatim>\<open>if not data.get("success", False)\<close> shared by all four.\<close>

definition api_failure :: "'f runtime \<Rightarrow> 'f pyval \<Rightarrow> py_exc + string" where
  "api_failure rt data =
     bind_exc (py_get data ''error'' (PDict [])) (\<lambda>error.
     bind_exc (py_get error ''info'' (PStr ''API request failed'')) (\<lambda>info.
       Inr (''Error: '' @ py_str rt info)))"

definition rate_entry :: "'f runtime \<Rightarrow> string \<times> 'f pyval \<Rightarrow> string" where
  "rate_entry rt item = fst item @ '': '' @ py_str rt (snd item)"

definition get_rates_render :: "'f runtime \<Rightarrow> 'f pyval \<Rightarrow> py_exc + string" where
  "get_rates_render rt data =
     bind_exc (py_get data ''success'' (PBool False)) (\<lambda>success.
       if \<not> truthy rt success then api_failure rt data
       else
         bind_exc (py_get data ''base'' (PStr ''EUR'')) (\<lambda>base.
         bind_exc (py_get data ''date'' (PStr ''unknown'')) (\<lambda>date.
         bind_exc (py_get data ''rates'' (PDict [])) (\<lambda>rates.
         bind_exc (py_items rates) (\<lambda>items.
           let rate_list = map (rate_entry rt) (take 10 (sorted_items items))
           in Inr (''Exchange rates for '' @ py_str rt base @ '' on '' @ py_str rt date @ '': ''
                   @ join '', '' rate_list
                   @ '' (and '' @ str_int (int (length items) - 10)
                   @ '' more currencies available)''))))))"

definition get_rates_url :: "'f book \<Rightarrow> string \<Rightarrow> string" where
  "get_rates_url self api_key = base_url self @ ''/latest?access_key='' @ api_key"

definition get_rates_body ::
  "'f runtime \<Rightarrow> 'f book \<Rightarrow> 'f requests \<Rightarrow> string \<Rightarrow> py_exc + string" where
  "get_rates_body rt self requests_get api_key =
     (let url = get_rates_url self api_key
      in bind_exc (requests_get url (stored_timeout self)) (\<lambda>response.
         bind_exc (json response) (\<lambda>data.
           get_rates_render rt data)))"

definition get_rates ::
  "'f runtime \<Rightarrow> 'f book \<Rightarrow> 'f requests \<Rightarrow> string \<Rightarrow> py_exc + string" where
  "get_rates rt self requests_get api_key =
     try_except (get_rates_body rt self requests_get api_key)
       [(isinstance_Exception, \<lambda>e. Inr (''Error: '' @ msg e))]"

definition get_specific_rates_render :: "'f runtime \<Rightarrow> 'f pyval \<Rightarrow> py_exc + string" where
  "get_specific_rates_render rt data =
     bind_exc (py_get data ''success'' (PBool False)) (\<lambda>success.
       if \<not> truthy rt success then api_failure rt data
       else
         bind_exc (py_get data ''base'' (PStr ''EUR'')) (\<lambda>base.
         bind_exc (py_get data ''date'' (PStr ''unknown'')) (\<lambda>date.
         bind_exc (py_get data ''rates'' (PDict [])) (\<lambda>rates.
         bind_exc (py_items rates) (\<lambda>items.
           let rate_list = map (rate_entry rt) items
           in Inr (''Exchange rates for '' @ py_str rt base @ '' on '' @ py_str rt date @ '': ''
                   @ join '', '' rate_list))))))"

definition get_specific_rates_url :: "'f book \<Rightarrow> string \<Rightarrow> string \<Rightarrow> string" where
  "get_specific_rates_url self currencies api_key =
     base_url self @ ''/latest?access_key='' @ api_key @ ''&symbols='' @ upper currencies"

definition get_specific_rates_body ::
  "'f runtime \<Rightarrow> 'f book \<Rightarrow> 'f requests \<Rightarrow> string \<Rightarrow> string \<Rightarrow> py_exc + string" where
  "get_specific_rates_body rt self requests_get currencies api_key =
     (let url = get_specific_rates_url self currencies api_key
      in bind_exc (requests_get url (stored_timeout self)) (\<lambda>response.
         bind_exc (json response) (\<lambda>data.
           get_specific_rates_render rt data)))"

definition get_specific_rates ::
  "'f runtime \<Rightarrow> 'f book \<Rightarrow> 'f requests \<Rightarrow> string \<Rightarrow> string \<Rightarrow> py_exc + string" where
  "get_specific_rates rt self requests_get currencies api_key =
     try_except (get_specific_rates_body rt self requests_get currencies api_key)
       [(isinstance_Exception, \<lambda>e. Inr (''Error: '' @ msg e))]"

definition convert_currency_render ::
  "'f runtime \<Rightarrow> string \<Rightarrow> string \<Rightarrow> string \<Rightarrow> 'f pyval \<Rightarrow> py_exc + string" where
  "convert_currency_render rt amount source_currency target_currency data =
     bind_exc (py_get data ''success'' (PBool False)) (\<lambda>success.
       if \<not> truthy rt success then api_failure rt data
       else
         bind_exc (py_get data ''rates'' (PDict [])) (\<lambda>rates.
         bind_exc (py_get data ''date'' (PStr ''unknown'')) (\<lambda>date.
         bind_exc (py_get rates (upper source_currency) PNone) (\<lambda>source_rate.
         bind_exc (py_get rates (upper target_currency) PNone) (\<lambda>target_rate.
           if \<not> truthy rt source_rate \<or> \<not> truthy rt target_rate then
             Inr (''Error: Could not find rates for '' @ source_currency @ '' or ''
                  @ target_currency)
           else
             bind_exc (py_float rt amount) (\<lambda>amount_float.
             bind_exc (py_truediv rt target_rate source_rate) (\<lambda>conversion_rate.
               let result = float_mul rt amount_float conversion_rate
               in Inr (''Converted '' @ amount @ '' '' @ upper source_currency @ '' to ''
                       @ float_fixed rt 4 result @ '' '' @ upper target_currency
                       @ '' (rate: '' @ float_fixed rt 6 conversion_rate @ '') on ''
                       @ py_str rt date))))))))"

definition convert_currency_url :: "'f book \<Rightarrow> string \<Rightarrow> string \<Rightarrow> string \<Rightarrow> string" where
  "convert_currency_url self source_currency target_currency api_key =
     (let symbols = upper source_currency @ '','' @ upper target_currency
      in base_url self @ ''/latest?access_key='' @ api_key @ ''&symbols='' @ symbols)"

definition convert_currency_body ::
  "'f runtime \<Rightarrow> 'f book \<Rightarrow> 'f requests \<Rightarrow> string \<Rightarrow> string \<Rightarrow> string \<Rightarrow> string
     \<Rightarrow> py_exc + string" where
  "convert_currency_body rt self requests_get amount source_currency target_currency api_key =
     (let url = convert_currency_url self source_currency target_currency api_key
      in bind_exc (requests_get url (stored_timeout self)) (\<lambda>response.
         bind_exc (json response) (\<lambda>data.
           convert_currency_render rt amount source_currency target_currency data)))"

definition invalid_amount :: "string \<Rightarrow> string" where
  "invalid_amount amount =
     ''Error: Invalid amount '' @ quoted amount @ ''. Please provide a numeric value.''"

definition convert_currency ::
  "'f runtime \<Rightarrow> 'f book \<Rightarrow> 'f requests \<Rightarrow> string \<Rightarrow> string \<Rightarrow> string \<Rightarrow> string
     \<Rightarrow> py_exc + string" where
  "convert_currency rt self requests_get amount source_currency target_currency api_key =
     try_except
       (convert_currency_body rt self requests_get amount source_currency target_currency api_key)
       [(isinstance_ValueError, \<lambda>e. Inr (invalid_amount amount)),
        (isinstance_Exception, \<lambda>e. Inr (''Error: '' @ msg e))]"

definition currency_entry :: "'f runtime \<Rightarrow> string \<times> 'f pyval \<Rightarrow> string" where
  "currency_entry rt item = fst item @ '': '' @ py_str rt (snd item)"

definition check_supported_currencies_render :: "'f runtime \<Rightarrow> 'f pyval \<Rightarrow> py_exc + string" where
  "check_supported_currencies_render rt data =
     bind_exc (py_get data ''success'' (PBool False)) (\<lambda>success.
       if \<not> truthy rt success then api_failure rt data
       else
         bind_exc (py_get data ''symbols'' (PDict [])) (\<lambda>symbols.
         bind_exc (py_items symbols) (\<lambda>items.
           let currency_list = map (currency_entry rt) (take 20 (sorted_items items))
           in Inr (''Supported currencies (first 20 of '' @ str_int (int (length items))
                   @ '' total): '' @ join '', '' currency_list))))"

definition check_supported_currencies_url :: "'f book \<Rightarrow> string \<Rightarrow> string" where
  "check_supported_currencies_url self api_key = base_url self @ ''/symbols?access_key='' @ api_key"

definition check_supported_currencies_body ::
  "'f runtime \<Rightarrow> 'f book \<Rightarrow> 'f requests \<Rightarrow> string \<Rightarrow> py_exc + string" where
  "check_supported_currencies_body rt self requests_get api_key =
     (let url = check_supported_currencies_url self api_key
      in bind_exc (requests_get url (stored_timeout self)) (\<lambda>response.
         bind_exc (json response) (\<lambda>data.
           check_supported_currencies_render rt data)))"

definition check_supported_currencies ::
  "'f runtime \<Rightarrow> 'f book \<Rightarrow> 'f requests \<Rightarrow> string \<Rightarrow> py_exc + string" where
  "check_supported_currencies rt self requests_get api_key =
     try_except (check_supported_currencies_body rt self requests_get api_key)
       [(isinstance_Exception, \<lambda>e. Inr (''Error: '' @ msg e))]"

section \<open>CPython's floats: IEEE 754 binary64\<close>

text \<open>
  A finite float \<open>Finite negative m e\<close> is \<open>\<plusminus> m \<sqdot> 2\<^sup>e\<close> with \<open>0 \<le> m < 2\<^sup>5\<^sup>3\<close> and
  \<open>- 1074 \<le> e \<le> 971\<close>; zero is \<open>Finite negative 0 0\<close>, and has a sign.
\<close>

datatype float64 = Finite bool int int | Infinity bool | NaN

text \<open>The number of binary digits of a positive integer (\<^verbatim>\<open>int.bit_length()\<close>).\<close>

function bit_length :: "int \<Rightarrow> int" where
  "bit_length n = (if n \<le> 0 then 0 else 1 + bit_length (n div 2))"
  by pat_completeness auto
termination
  by (relation "measure nat") auto

declare bit_length.simps [simp del]

text \<open>\<open>n / d\<close> rounded to the nearest integer, a tie to the even one (\<open>0 \<le> n\<close>, \<open>0 < d\<close>).\<close>

definition round_half_even :: "int \<Rightarrow> int \<Rightarrow> int" where
  "round_half_even n d =
     (let q = n div d; r = n mod d
      in if d < 2 * r \<or> (2 * r = d \<and> odd q) then q + 1 else q)"

text \<open>The integer \<open>k\<close> with \<open>2\<^sup>k \<le> p / q < 2\<^sup>k\<^sup>+\<^sup>1\<close>, for positive \<open>p\<close> and \<open>q\<close>.\<close>

definition floor_log2 :: "int \<Rightarrow> int \<Rightarrow> int" where
  "floor_log2 p q =
     (let k = bit_length p - bit_length q
      in if (if 0 \<le> k then q * 2 ^ nat k \<le> p else q \<le> p * 2 ^ nat (- k)) then k else k - 1)"

text \<open>
  The float nearest to the fraction \<open>p / q\<close>, a tie to the even mantissa: 53 bits of
  mantissa, fewer below \<open>2\<^sup>-\<^sup>1\<^sup>0\<^sup>2\<^sup>2\<close> (the subnormal range), infinity from
  \<open>2\<^sup>1\<^sup>0\<^sup>2\<^sup>4\<close> on.
\<close>

definition round_to_double :: "bool \<Rightarrow> int \<Rightarrow> int \<Rightarrow> float64" where
  "round_to_double negative p q =
     (if p = 0 then Finite negative 0 0
      else
        let e = max (floor_log2 p q - 52) (- 1074);
            m = (if 0 \<le> e then round_half_even p (q * 2 ^ nat e)
                 else round_half_even (p * 2 ^ nat (- e)) q)
        in if m = 0 then Finite negative 0 0
           else if m = 2 ^ 53 then (if 971 \<le> e then Infinity negative else Finite negative (2 ^ 52) (e + 1))
           else if 971 < e then Infinity negative
           else Finite negative m e)"

text \<open>The float a decimal literal \<open>digits \<sqdot> 10\<^sup>e\<close> denotes.\<close>

definition double_of_decimal :: "bool \<Rightarrow> int \<Rightarrow> int \<Rightarrow> float64" where
  "double_of_decimal negative digits exp10 =
     (if 0 \<le> exp10 then round_to_double negative (digits * 10 ^ nat exp10) 1
      else round_to_double negative digits (10 ^ nat (- exp10)))"

text \<open>\<^verbatim>\<open>x * y\<close> and \<^verbatim>\<open>x / y\<close> on floats: the exact result, rounded once.\<close>

fun f64_mul :: "float64 \<Rightarrow> float64 \<Rightarrow> float64" where
  "f64_mul NaN y = NaN"
| "f64_mul x NaN = NaN"
| "f64_mul (Infinity s) (Infinity t) = Infinity (s \<noteq> t)"
| "f64_mul (Infinity s) (Finite t m e) = (if m = 0 then NaN else Infinity (s \<noteq> t))"
| "f64_mul (Finite s m e) (Infinity t) = (if m = 0 then NaN else Infinity (s \<noteq> t))"
| "f64_mul (Finite s m e) (Finite t n f) =
     (let ex = e + f
      in if 0 \<le> ex then round_to_double (s \<noteq> t) (m * n * 2 ^ nat ex) 1
         else round_to_double (s \<noteq> t) (m * n) (2 ^ nat (- ex)))"

fun f64_div :: "float64 \<Rightarrow> float64 \<Rightarrow> float64" where
  "f64_div NaN y = NaN"
| "f64_div x NaN = NaN"
| "f64_div (Infinity s) (Infinity t) = NaN"
| "f64_div (Infinity s) (Finite t m e) = Infinity (s \<noteq> t)"
| "f64_div (Finite s m e) (Infinity t) = Finite (s \<noteq> t) 0 0"
| "f64_div (Finite s m e) (Finite t n f) =
     (if n = 0 then (if m = 0 then NaN else Infinity (s \<noteq> t))
      else
        let ex = e - f
        in if 0 \<le> ex then round_to_double (s \<noteq> t) (m * 2 ^ nat ex) n
           else round_to_double (s \<noteq> t) m (n * 2 ^ nat (- ex)))"

text \<open>
  \<^verbatim>\<open>format(x, ".Nf")\<close>: the exact value of the float rounded to \<open>N\<close> decimals, a tie
  to the even digit; the sign is shown for every float whose sign bit is set.
\<close>

definition fixed_digits :: "nat \<Rightarrow> int \<Rightarrow> string" where
  "fixed_digits prec r =
     (let ds = str_digits r;
          padded = replicate (Suc prec - length ds) CHR ''0'' @ ds;
          k = length padded - prec
      in if prec = 0 then padded else take k padded @ ''.'' @ drop k padded)"

fun f64_fixed :: "nat \<Rightarrow> float64 \<Rightarrow> string" where
  "f64_fixed prec NaN = ''nan''"
| "f64_fixed prec (Infinity s) = (if s then ''-inf'' else ''inf'')"
| "f64_fixed prec (Finite s m e) =
     (let r = (if 0 \<le> e then m * 2 ^ nat e * 10 ^ prec
               else round_half_even (m * 10 ^ prec) (2 ^ nat (- e)))
      in (if s then ''-'' else []) @ fixed_digits prec r)"

text \<open>
  \<^verbatim>\<open>float(s)\<close> on an ASCII string: surrounding whitespace is dropped, then an optional
  sign, then \<^verbatim>\<open>inf\<close>, \<^verbatim>\<open>infinity\<close> or \<^verbatim>\<open>nan\<close> in any case, or a decimal number
  \<^verbatim>\<open>digits[.digits][e[sign]digits]\<close> whose digits may be grouped by single underscores.
  \<open>None\<close> is \<^verbatim>\<open>ValueError\<close>.
\<close>

definition is_space :: "char \<Rightarrow> bool" where
  "is_space c = (c \<in> set [CHR 0x09, CHR 0x0A, CHR 0x0B, CHR 0x0C, CHR 0x0D, CHR 0x20])"

definition strip :: "string \<Rightarrow> string" where
  "strip s = rev (dropWhile is_space (rev (dropWhile is_space s)))"

definition digit_value :: "char \<Rightarrow> int option" where
  "digit_value c = map_of (zip ''0123456789'' [0, 1, 2, 3, 4, 5, 6, 7, 8, 9]) c"

fun digits_tail :: "string \<Rightarrow> int list \<times> string" where
  "digits_tail [] = ([], [])"
| "digits_tail [c] = (case digit_value c of Some d \<Rightarrow> ([d], []) | None \<Rightarrow> ([], [c]))"
| "digits_tail (c # c' # cs) =
     (case digit_value c of
        Some d \<Rightarrow> (case digits_tail (c' # cs) of (ds, rest) \<Rightarrow> (d # ds, rest))
      | None \<Rightarrow>
          (case (c = CHR ''_'', digit_value c') of
             (True, Some d) \<Rightarrow> (case digits_tail cs of (ds, rest) \<Rightarrow> (d # ds, rest))
           | _ \<Rightarrow> ([], c # c' # cs)))"

fun digitpart :: "string \<Rightarrow> (int list \<times> string) option" where
  "digitpart [] = None"
| "digitpart (c # cs) =
     (case digit_value c of
        None \<Rightarrow> None
      | Some d \<Rightarrow> (case digits_tail cs of (ds, rest) \<Rightarrow> Some (d # ds, rest)))"

definition decimal_value :: "int list \<Rightarrow> int" where
  "decimal_value ds = foldl (\<lambda>acc d. 10 * acc + d) 0 ds"

fun split_sign :: "string \<Rightarrow> bool \<times> string" where
  "split_sign (c # cs) =
     (if c = CHR ''-'' then (True, cs) else if c = CHR ''+'' then (False, cs) else (False, c # cs))"
| "split_sign [] = (False, [])"

definition lower_char :: "char \<Rightarrow> char" where
  "lower_char c =
     (case map_of (zip ''ABCDEFGHIJKLMNOPQRSTUVWXYZ'' ''abcdefghijklmnopqrstuvwxyz'') c of
        None \<Rightarrow> c
      | Some l \<Rightarrow> l)"

definition exponent_part :: "string \<Rightarrow> int option" where
  "exponent_part s =
     (case s of
        [] \<Rightarrow> Some 0
      | c # cs \<Rightarrow>
          if c = CHR ''e'' \<or> c = CHR ''E'' then
            (case split_sign cs of (negative, ds) \<Rightarrow>
               (case digitpart ds of
                  Some (es, []) \<Rightarrow> Some (if negative then - decimal_value es else decimal_value es)
                | _ \<Rightarrow> None))
          else None)"

definition number_part :: "string \<Rightarrow> (int list \<times> int list \<times> string) option" where
  "number_part s =
     (case digitpart s of
        Some (ip, rest) \<Rightarrow>
          (case rest of
             c # rest' \<Rightarrow>
               if c = CHR ''.'' then
                 (case digitpart rest' of
                    Some (fp, rest'') \<Rightarrow> Some (ip, fp, rest'')
                  | None \<Rightarrow> Some (ip, [], rest'))
               else Some (ip, [], rest)
           | [] \<Rightarrow> Some (ip, [], []))
      | None \<Rightarrow>
          (case s of
             c # rest' \<Rightarrow>
               if c = CHR ''.'' then
                 (case digitpart rest' of
                    Some (fp, rest'') \<Rightarrow> Some ([], fp, rest'')
                  | None \<Rightarrow> None)
               else None
           | [] \<Rightarrow> None))"

definition f64_of_str :: "string \<Rightarrow> float64 option" where
  "f64_of_str s =
     (case split_sign (strip s) of (negative, body) \<Rightarrow>
        if map lower_char body = ''inf'' \<or> map lower_char body = ''infinity'' then Some (Infinity negative)
        else if map lower_char body = ''nan'' then Some NaN
        else
          (case number_part body of
             None \<Rightarrow> None
           | Some (ip, fp, rest) \<Rightarrow>
               (case exponent_part rest of
                  None \<Rightarrow> None
                | Some ex \<Rightarrow>
                    Some (double_of_decimal negative (decimal_value (ip @ fp)) (ex - int (length fp))))))"

text \<open>
  \<^verbatim>\<open>float(n)\<close> and \<^verbatim>\<open>m / n\<close> on integers (\<open>n \<noteq> 0\<close>): correctly rounded, and
  \<^verbatim>\<open>OverflowError\<close> (\<open>None\<close>) where the result is beyond the largest float.
\<close>

definition f64_of_int :: "int \<Rightarrow> float64 option" where
  "f64_of_int n =
     (case round_to_double (n < 0) \<bar>n\<bar> 1 of
        Infinity s \<Rightarrow> None
      | x \<Rightarrow> Some x)"

definition f64_int_truediv :: "int \<Rightarrow> int \<Rightarrow> float64 option" where
  "f64_int_truediv m n =
     (case round_to_double ((m < 0) \<noteq> (n < 0)) \<bar>m\<bar> \<bar>n\<bar> of
        Infinity s \<Rightarrow> None
      | x \<Rightarrow> Some x)"

text \<open>
  The runtime on binary64. The \<^verbatim>\<open>repr\<close> of floats, strings and containers stays a
  parameter.
\<close>

fun f64_sign :: "float64 \<Rightarrow> sign0" where
  "f64_sign NaN = NotANumber"
| "f64_sign (Infinity s) = (if s then Negative else Positive)"
| "f64_sign (Finite s m e) = (if m = 0 then Zero else if s then Negative else Positive)"

definition binary64 :: "(float64 pyval \<Rightarrow> string) \<Rightarrow> float64 runtime" where
  "binary64 repr =
     \<lparr>float_sign = f64_sign,
      float_of_int = f64_of_int,
      float_of_str = f64_of_str,
      int_truediv = f64_int_truediv,
      float_truediv = f64_div,
      float_mul = f64_mul,
      float_fixed = f64_fixed,
      repr_of = repr\<rparr>"

section \<open>Vocabulary of the properties\<close>

text \<open>
  The transport answers the request for \<open>url\<close> under deadline \<open>t\<close> with a response
  whose body parses to \<open>data\<close>.
\<close>

definition returns_document :: "'f requests \<Rightarrow> string \<Rightarrow> 'f pyval \<Rightarrow> 'f pyval \<Rightarrow> bool" where
  "returns_document requests_get url t data =
     (case requests_get url t of
        Inl e \<Rightarrow> False
      | Inr response \<Rightarrow> json response = Inr data)"

text \<open>The request raises \<open>e\<close>, in the transport or in the parser of the body.\<close>

definition transport_raises :: "'f requests \<Rightarrow> string \<Rightarrow> 'f pyval \<Rightarrow> py_exc \<Rightarrow> bool" where
  "transport_raises requests_get url t e =
     (case requests_get url t of
        Inl e' \<Rightarrow> e' = e
      | Inr response \<Rightarrow> json response = Inl e)"

text \<open>
  The request fails: the transport or the parser raises, or the document is not an
  object, or its \<^verbatim>\<open>success\<close> field is false or absent.
\<close>

definition request_fails :: "'f runtime \<Rightarrow> 'f requests \<Rightarrow> string \<Rightarrow> 'f pyval \<Rightarrow> bool" where
  "request_fails rt requests_get url t =
     (case requests_get url t of
        Inl e \<Rightarrow> True
      | Inr response \<Rightarrow>
          (case json response of
             Inl e \<Rightarrow> True
           | Inr data \<Rightarrow>
               (case py_get data ''success'' (PBool False) of
                  Inl e \<Rightarrow> True
                | Inr success \<Rightarrow> \<not> truthy rt success)))"

text \<open>\<^verbatim>\<open>s.startswith(p)\<close>.\<close>

definition starts_with :: "string \<Rightarrow> string \<Rightarrow> bool" where
  "starts_with s p = (take (length p) s = p)"

text \<open>\<open>t > 0\<close> and \<open>t \<le> 0\<close> for a Python number \<open>t\<close>.\<close>

definition positive :: "'f runtime \<Rightarrow> 'f pyval \<Rightarrow> bool" where
  "positive rt t =
     (case as_number t of
        Some (IntNum n) \<Rightarrow> 0 < n
      | Some (FloatNum f) \<Rightarrow> float_sign rt f = Positive
      | None \<Rightarrow> False)"

definition not_positive :: "'f runtime \<Rightarrow> 'f pyval \<Rightarrow> bool" where
  "not_positive rt t =
     (case as_number t of
        Some (IntNum n) \<Rightarrow> n \<le> 0
      | Some (FloatNum f) \<Rightarrow> float_sign rt f = Negative \<or> float_sign rt f = Zero
      | None \<Rightarrow> False)"

text \<open>
  What the division relies on in a runtime: the float of an integer other than 0 is
  not a zero.
\<close>

definition nonzero_ints_stay_nonzero :: "'f runtime \<Rightarrow> bool" where
  "nonzero_ints_stay_nonzero rt =
     (\<forall>n f. n \<noteq> 0 \<longrightarrow> float_of_int rt n = Some f \<longrightarrow> float_sign rt f \<noteq> Zero)"

text \<open>A \<^verbatim>\<open>repr\<close> for the runs that show none.\<close>

definition no_repr :: "float64 pyval \<Rightarrow> string" where
  "no_repr v = ''<repr>''"

text \<open>
  An operation contains its failures: it returns a string, never an exception, and the
  string begins with \<^verbatim>\<open>"Error: "\<close> when the operation failed.
\<close>

definition reports_failure :: "py_exc + string \<Rightarrow> bool \<Rightarrow> bool" where
  "reports_failure result failed =
     (case result of
        Inl e \<Rightarrow> False
      | Inr s \<Rightarrow> failed \<longrightarrow> starts_with s ''Error: '')"

section \<open>Sample runs\<close>

text \<open>A book with the default timeout, transports and documents for the examples.\<close>

definition book0 :: "float64 book" where
  "book0 = \<lparr>base_url = FIXED_CURRENCY_DATA_BASE_URL,
            stored_timeout = PFloat (Finite False 8444249301319680 (- 48))\<rparr>"

definition serves :: "float64 pyval \<Rightarrow> float64 requests" where
  "serves data url t = Inr (Response (Inr data))"

definition refuses :: "float64 requests" where
  "refuses url t = Inl (Exc ConnectionError ''connection refused'')"

definition serves_garbage :: "float64 requests" where
  "serves_garbage url t =
     Inr (Response (Inl (Exc JSONDecodeError ''Expecting value: line 1 column 1 (char 0)'')))"

definition failure_doc :: "float64 pyval" where
  "failure_doc =
     PDict [(''success'', PBool False),
            (''error'', PDict [(''code'', PInt 101), (''info'', PStr ''invalid access key'')])]"

definition rates12 :: "(string \<times> float64 pyval) list" where
  "rates12 =
     [(''USD'', PInt 2), (''GBP'', PInt 3), (''JPY'', PInt 160), (''AUD'', PInt 4),
      (''CAD'', PInt 5), (''CHF'', PInt 1), (''CNY'', PInt 8), (''SEK'', PInt 11),
      (''NZD'', PInt 6), (''MXN'', PInt 20), (''AED'', PInt 4), (''ZAR'', PInt 19)]"

definition rates_doc :: "float64 pyval" where
  "rates_doc =
     PDict [(''success'', PBool True), (''base'', PStr ''EUR''), (''date'', PStr ''2024-05-01''),
            (''rates'', PDict rates12)]"

definition usd_eur_doc :: "float64 pyval" where
  "usd_eur_doc =
     PDict [(''success'', PBool True), (''date'', PStr ''2024-05-01''),
            (''rates'', PDict [(''USD'', PFloat (Finite False 4503599627370496 (- 52))),
                               (''EUR'', PFloat (Finite False 7656119366529843 (- 53)))])]"

definition usd_only_doc :: "float64 pyval" where
  "usd_only_doc =
     PDict [(''success'', PBool True), (''date'', PStr ''2024-05-01''),
            (''rates'', PDict [(''USD'', PFloat (Finite False 4503599627370496 (- 52)))])]"

definition zero_usd_doc :: "float64 pyval" where
  "zero_usd_doc =
     PDict [(''success'', PBool True), (''date'', PStr ''2024-05-01''),
            (''rates'', PDict [(''USD'', PInt 0),
                               (''EUR'', PFloat (Finite False 7656119366529843 (- 53)))])]"

definition symbols21 :: "(string \<times> float64 pyval) list" where
  "symbols21 =
     [(''USD'', PStr ''United States Dollar''), (''EUR'', PStr ''Euro''),
      (''AED'', PStr ''United Arab Emirates Dirham''), (''AFN'', PStr ''Afghan Afghani''),
      (''ALL'', PStr ''Albanian Lek''), (''AMD'', PStr ''Armenian Dram''),
      (''ANG'', PStr ''Netherlands Antillean Guilder''), (''AOA'', PStr ''Angolan Kwanza''),
      (''ARS'', PStr ''Argentine Peso''), (''AUD'', PStr ''Australian Dollar''),
      (''AWG'', PStr ''Aruban Florin''), (''AZN'', PStr ''Azerbaijani Manat''),
      (''BAM'', PStr ''Bosnia-Herzegovina Convertible Mark''), (''BBD'', PStr ''Barbadian Dollar''),
      (''BDT'', PStr ''Bangladeshi Taka''), (''BGN'', PStr ''Bulgarian Lev''),
      (''BHD'', PStr ''Bahraini Dinar''), (''BIF'', PStr ''Burundian Franc''),
      (''BMD'', PStr ''Bermudan Dollar''), (''BND'', PStr ''Brunei Dollar''),
      (''BOB'', PStr ''Bolivian Boliviano'')]"

definition symbols_doc :: "float64 pyval" where
  "symbols_doc = PDict [(''success'', PBool True), (''symbols'', PDict symbols21)]"

section \<open>Lemmas on the model\<close>

lemma init_book0:
  "init (binary64 repr) = Inr book0"
  unfolding book0_def by code_simp

lemma try_except_Exception:
  "try_except body [(isinstance_Exception, h)] = (case body of Inl e \<Rightarrow> h e | Inr v \<Rightarrow> Inr v)"
  by (cases body) simp_all

lemma returns_documentD:
  "returns_document requests_get url t data \<Longrightarrow>
     bind_exc (requests_get url t) (\<lambda>response. bind_exc (json response) k) = k data"
  by (auto simp: returns_document_def split: sum.splits)

lemma api_failure_dict:
  assumes "lookup doc ''error'' (PDict []) = PDict error"
  shows "api_failure rt (PDict doc) =
           Inr (''Error: '' @ (case map_of error ''info'' of
                                 None \<Rightarrow> ''API request failed''
                               | Some info \<Rightarrow> py_str rt info))"
  using assms by (simp add: api_failure_def lookup_def split: option.splits)

lemma first_sorted_length:
  "n \<le> length xs \<Longrightarrow> length (take n (sorted_items xs)) = n"
  by (simp add: sorted_items_def)

lemma first_sorted_subset:
  "set (take n (sorted_items xs)) \<subseteq> set xs"
  using set_take_subset [of n "sort_key fst xs"] by (simp add: sorted_items_def)

lemma sorted_items_strict:
  assumes "dict_ok xs"
  shows "sorted_wrt (<) (map fst (sorted_items xs))"
proof -
  have "mset (map fst (sort_key fst xs)) = mset (map fst xs)"
    by simp
  then have "distinct (map fst (sort_key fst xs))"
    using assms mset_eq_imp_distinct_iff unfolding dict_ok_def by blast
  moreover have "sorted (map fst (sort_key fst xs))"
    by (rule sorted_sort_key)
  ultimately show ?thesis
    by (simp add: sorted_items_def strict_sorted_iff)
qed

lemma first_sorted_strict:
  assumes "dict_ok xs"
  shows "sorted_wrt (<) (map fst (take n (sorted_items xs)))"
proof -
  have "sorted_wrt (<) (take n (map fst (sorted_items xs)))"
    using sorted_items_strict [OF assms] by (rule sorted_wrt_take)
  then show ?thesis by (simp add: take_map)
qed

lemma first_sorted_least:
  assumes "dict_ok xs"
      and "x \<in> set xs - set (take n (sorted_items xs))"
      and "y \<in> set (take n (sorted_items xs))"
  shows "fst y < fst x"
proof -
  let ?ys = "sorted_items xs"
  have "x \<in> set ?ys" using assms(2) by (simp add: sorted_items_def)
  then have "x \<in> set (take n ?ys) \<union> set (drop n ?ys)"
    using set_append [of "take n ?ys" "drop n ?ys"] by simp
  then have x: "x \<in> set (drop n ?ys)" using assms(2) by blast
  have "sorted_wrt (<) (map fst (take n ?ys @ drop n ?ys))"
    using sorted_items_strict [OF assms(1)] by simp
  then have "\<forall>a \<in> set (map fst (take n ?ys)). \<forall>b \<in> set (map fst (drop n ?ys)). a < b"
    unfolding map_append sorted_wrt_append by blast
  then show ?thesis using x assms(3) by simp
qed

lemma get_rates_success:
  assumes "returns_document requests_get (get_rates_url self api_key) (stored_timeout self) (PDict doc)"
      and "truthy rt (lookup doc ''success'' (PBool False))"
      and "lookup doc ''rates'' (PDict []) = PDict rates"
  shows "get_rates rt self requests_get api_key =
           Inr (''Exchange rates for '' @ py_str rt (lookup doc ''base'' (PStr ''EUR''))
                @ '' on '' @ py_str rt (lookup doc ''date'' (PStr ''unknown'')) @ '': ''
                @ join '', '' (map (rate_entry rt) (take 10 (sorted_items rates)))
                @ '' (and '' @ str_int (int (length rates) - 10) @ '' more currencies available)'')"
proof -
  have "get_rates_body rt self requests_get api_key = get_rates_render rt (PDict doc)"
    using assms(1) by (simp add: get_rates_body_def returns_documentD)
  then show ?thesis
    using assms(2,3) by (simp add: get_rates_def try_except_Exception get_rates_render_def)
qed

lemma starts_with_iff: "starts_with s p \<longleftrightarrow> (\<exists>r. s = p @ r)"
  unfolding starts_with_def
  by (metis append_eq_conv_conj append_take_drop_id)

lemma bind_exc_Inr_iff:
  "bind_exc m k = Inr y \<longleftrightarrow> (\<exists>x. m = Inr x \<and> k x = Inr y)"
  by (cases m) auto

lemma bind_exc_Inl_iff:
  "bind_exc m k = Inl e \<longleftrightarrow> m = Inl e \<or> (\<exists>x. m = Inr x \<and> k x = Inl e)"
  by (cases m) auto

lemma api_failure_reports:
  "api_failure rt data = Inr s \<Longrightarrow> starts_with s ''Error: ''"
  by (auto simp: api_failure_def bind_exc_Inr_iff starts_with_iff)

lemma failed_request_reports:
  assumes "request_fails rt requests_get url t"
      and "bind_exc (requests_get url t) (\<lambda>response. bind_exc (json response) render) = Inr s"
      and "\<And>data e. py_get data ''success'' (PBool False) = Inl e \<Longrightarrow> render data = Inl e"
      and "\<And>data success. py_get data ''success'' (PBool False) = Inr success \<Longrightarrow>
             \<not> truthy rt success \<Longrightarrow> render data = api_failure rt data"
  shows "starts_with s ''Error: ''"
proof -
  from assms(2) obtain response data where r: "requests_get url t = Inr response"
      "json response = Inr data" "render data = Inr s"
    by (auto simp: bind_exc_Inr_iff)
  with assms(1,3) obtain success where "py_get data ''success'' (PBool False) = Inr success"
      "\<not> truthy rt success"
    by (cases "py_get data ''success'' (PBool False)") (auto simp: request_fails_def)
  with r(3) have "api_failure rt data = Inr s"
    using assms(4) by simp
  then show ?thesis by (rule api_failure_reports)
qed

lemma handled_reports:
  assumes "\<And>s. body = Inr s \<Longrightarrow> failed \<Longrightarrow> starts_with s ''Error: ''"
  shows "reports_failure (try_except body [(isinstance_Exception, \<lambda>e. Inr (''Error: '' @ msg e))])
           (failed \<or> isl body)"
  using assms by (cases body) (auto simp: reports_failure_def starts_with_iff)

lemma get_rates_reports:
  "reports_failure (get_rates rt self requests_get api_key)
     (request_fails rt requests_get (get_rates_url self api_key) (stored_timeout self)
      \<or> isl (get_rates_body rt self requests_get api_key))"
  unfolding get_rates_def
proof (rule handled_reports)
  fix s
  assume body: "get_rates_body rt self requests_get api_key = Inr s"
    and failed: "request_fails rt requests_get (get_rates_url self api_key) (stored_timeout self)"
  show "starts_with s ''Error: ''"
  proof (rule failed_request_reports [OF failed])
    show "bind_exc (requests_get (get_rates_url self api_key) (stored_timeout self))
            (\<lambda>response. bind_exc (json response) (get_rates_render rt)) = Inr s"
      using body by (simp add: get_rates_body_def)
  qed (simp_all add: get_rates_render_def)
qed

lemma get_specific_rates_reports:
  "reports_failure (get_specific_rates rt self requests_get currencies api_key)
     (request_fails rt requests_get (get_specific_rates_url self currencies api_key) (stored_timeout self)
      \<or> isl (get_specific_rates_body rt self requests_get currencies api_key))"
  unfolding get_specific_rates_def
proof (rule handled_reports)
  fix s
  assume body: "get_specific_rates_body rt self requests_get currencies api_key = Inr s"
    and failed: "request_fails rt requests_get (get_specific_rates_url self currencies api_key) (stored_timeout self)"
  show "starts_with s ''Error: ''"
  proof (rule failed_request_reports [OF failed])
    show "bind_exc (requests_get (get_specific_rates_url self currencies api_key) (stored_timeout self))
            (\<lambda>response. bind_exc (json response) (get_specific_rates_render rt)) = Inr s"
      using body by (simp add: get_specific_rates_body_def)
  qed (simp_all add: get_specific_rates_render_def)
qed

lemma check_supported_currencies_reports:
  "reports_failure (check_supported_currencies rt self requests_get api_key)
     (request_fails rt requests_get (check_supported_currencies_url self api_key) (stored_timeout self)
      \<or> isl (check_supported_currencies_body rt self requests_get api_key))"
  unfolding check_supported_currencies_def
proof (rule handled_reports)
  fix s
  assume body: "check_supported_currencies_body rt self requests_get api_key = Inr s"
    and failed: "request_fails rt requests_get (check_supported_currencies_url self api_key) (stored_timeout self)"
  show "starts_with s ''Error: ''"
  proof (rule failed_request_reports [OF failed])
    show "bind_exc (requests_get (check_supported_currencies_url self api_key) (stored_timeout self))
            (\<lambda>response. bind_exc (json response) (check_supported_currencies_render rt)) = Inr s"
      using body by (simp add: check_supported_currencies_body_def)
  qed (simp_all add: check_supported_currencies_render_def)
qed

lemma convert_currency_handlers:
  "convert_currency rt self requests_get amount source_currency target_currency api_key =
     (case convert_currency_body rt self requests_get amount source_currency target_currency api_key
      of Inl e \<Rightarrow> if isinstance_ValueError (cls e) then Inr (invalid_amount amount)
                  else Inr (''Error: '' @ msg e)
       | Inr s \<Rightarrow> Inr s)"
  by (simp add: convert_currency_def split: sum.splits)

lemma convert_currency_reports:
  "reports_failure
     (convert_currency rt self requests_get amount source_currency target_currency api_key)
     (request_fails rt requests_get
        (convert_currency_url self source_currency target_currency api_key) (stored_timeout self)
      \<or> isl (convert_currency_body rt self requests_get amount source_currency target_currency
               api_key))"
proof (cases "convert_currency_body rt self requests_get amount source_currency target_currency
               api_key")
  case (Inl e)
  then show ?thesis
    by (simp add: convert_currency_handlers reports_failure_def starts_with_iff invalid_amount_def)
next
  case (Inr s)
  have "starts_with s ''Error: ''"
    if failed: "request_fails rt requests_get
        (convert_currency_url self source_currency target_currency api_key) (stored_timeout self)"
  proof (rule failed_request_reports [OF failed])
    show "bind_exc (requests_get (convert_currency_url self source_currency target_currency api_key)
                     (stored_timeout self))
            (\<lambda>response. bind_exc (json response)
               (convert_currency_render rt amount source_currency target_currency)) = Inr s"
      using Inr by (simp add: convert_currency_body_def)
  qed (simp_all add: convert_currency_render_def)
  then show ?thesis
    using Inr by (auto simp: convert_currency_handlers reports_failure_def)
qed

lemma convert_currency_body_document:
  assumes "returns_document requests_get
             (convert_currency_url self source_currency target_currency api_key)
             (stored_timeout self) data"
  shows "convert_currency_body rt self requests_get amount source_currency target_currency api_key
           = convert_currency_render rt amount source_currency target_currency data"
  using assms by (simp add: convert_currency_body_def returns_documentD)

lemma transport_raises_bind:
  "transport_raises requests_get url t e \<Longrightarrow>
     bind_exc (requests_get url t) (\<lambda>response. bind_exc (json response) k) = Inl e"
  by (auto simp: transport_raises_def split: sum.splits)

lemma py_le_zero_positive: "positive rt t \<Longrightarrow> py_le_zero rt t = Inr False"
  by (auto simp: positive_def py_le_zero_def split: option.splits number.splits)

lemma py_le_zero_not_positive: "not_positive rt t \<Longrightarrow> py_le_zero rt t = Inr True"
  by (auto simp: not_positive_def py_le_zero_def split: option.splits number.splits)

lemma to_float_not_zero_division:
  "to_float rt x = Inl e \<Longrightarrow> cls e \<noteq> ZeroDivisionError"
  by (cases x) (auto split: option.splits)

lemma number_truediv_guarded:
  assumes "nonzero_ints_stay_nonzero rt"
      and "case y of IntNum n \<Rightarrow> n \<noteq> 0 | FloatNum f \<Rightarrow> float_sign rt f \<noteq> Zero"
      and "number_truediv rt x y = Inl e"
  shows "cls e \<noteq> ZeroDivisionError"
proof (cases x; cases y)
  fix m n assume "x = IntNum m" "y = IntNum n"
  then show ?thesis using assms(2,3) by (auto split: option.splits)
next
  fix m f assume "x = IntNum m" "y = FloatNum f"
  then show ?thesis using assms(2,3)
    by (auto simp: bind_exc_Inl_iff split: option.splits if_splits)
next
  fix g n assume "x = FloatNum g" "y = IntNum n"
  then show ?thesis using assms
    by (auto simp: bind_exc_Inl_iff nonzero_ints_stay_nonzero_def split: option.splits if_splits)
next
  fix g f assume "x = FloatNum g" "y = FloatNum f"
  then show ?thesis using assms(2,3)
    by (auto simp: bind_exc_Inl_iff split: option.splits if_splits)
qed

lemma py_truediv_guarded:
  assumes "nonzero_ints_stay_nonzero rt"
      and "truthy rt source_rate"
      and "py_truediv rt target_rate source_rate = Inl e"
  shows "cls e \<noteq> ZeroDivisionError"
proof (cases "as_number target_rate")
  case None
  then show ?thesis using assms(3) by (auto simp: py_truediv_def)
next
  case x: (Some x)
  show ?thesis
  proof (cases "as_number source_rate")
    case None
    then show ?thesis using assms(3) x by (auto simp: py_truediv_def)
  next
    case (Some y)
    have "case y of IntNum n \<Rightarrow> n \<noteq> 0 | FloatNum f \<Rightarrow> float_sign rt f \<noteq> Zero"
      using Some assms(2) by (cases source_rate) (auto split: if_splits)
    moreover have "number_truediv rt x y = Inl e"
      using assms(3) x Some by (simp add: py_truediv_def)
    ultimately show ?thesis
      using number_truediv_guarded [OF assms(1)] by blast
  qed
qed

lemma py_get_not_zero_division:
  "py_get v key dflt = Inl e \<Longrightarrow> cls e \<noteq> ZeroDivisionError"
  by (cases v) (auto simp: attribute_error_def)

lemma api_failure_not_zero_division:
  "api_failure rt data = Inl e \<Longrightarrow> cls e \<noteq> ZeroDivisionError"
  by (auto simp: api_failure_def bind_exc_Inl_iff dest: py_get_not_zero_division)

lemma py_float_not_zero_division:
  "py_float rt s = Inl e \<Longrightarrow> cls e \<noteq> ZeroDivisionError"
  by (auto simp: py_float_def split: option.splits)

lemma bit_length_nonneg: "0 \<le> bit_length n"
proof (induction n rule: bit_length.induct)
  case (1 n)
  then show ?case by (subst bit_length.simps) simp
qed

lemma bit_length_lower: "0 < n \<Longrightarrow> 2 ^ nat (bit_length n - 1) \<le> n"
proof (induction n rule: bit_length.induct)
  case (1 n)
  show ?case
  proof (cases "n = 1")
    case True
    then show ?thesis by (simp add: bit_length.simps)
  next
    case False
    with "1.prems" have half: "0 < n div 2" by simp
    then have ih: "2 ^ nat (bit_length (n div 2) - 1) \<le> n div 2"
      using "1.IH" "1.prems" by simp
    have pos: "0 < bit_length (n div 2)"
      using half bit_length_nonneg [of "n div 2 div 2"] by (subst bit_length.simps) simp
    have "bit_length n = 1 + bit_length (n div 2)"
      using "1.prems" by (subst bit_length.simps) simp
    then have "(2::int) ^ nat (bit_length n - 1) = 2 * 2 ^ nat (bit_length (n div 2) - 1)"
      using pos by (simp add: nat_diff_distrib' flip: power_Suc)
    then show ?thesis using ih by linarith
  qed
qed

lemma round_half_even_ge: "n div d \<le> round_half_even n d"
  by (simp add: round_half_even_def Let_def)

lemma bit_length_1: "bit_length 1 = 1"
  by (simp add: bit_length.simps)

lemma floor_log2_le: "floor_log2 p 1 \<le> bit_length p - 1"
  by (simp add: floor_log2_def Let_def bit_length_1)

lemma round_to_double_int_nonzero:
  assumes "0 < p"
  shows "f64_sign (round_to_double negative p 1) \<noteq> Zero"
proof -
  define e where "e = max (floor_log2 p 1 - 52) (- 1074)"
  define m where "m = (if 0 \<le> e then round_half_even p (1 * 2 ^ nat e)
                       else round_half_even (p * 2 ^ nat (- e)) 1)"
  have "0 < m"
  proof (cases "0 \<le> e")
    case True
    then have "e \<le> bit_length p - 1"
      using floor_log2_le [of p] by (simp add: e_def)
    then have "(2::int) ^ nat e \<le> 2 ^ nat (bit_length p - 1)"
      by (intro power_increasing) auto
    then have "(2::int) ^ nat e \<le> p"
      using bit_length_lower [OF assms] by linarith
    then have "0 < p div 2 ^ nat e"
      using pos_imp_zdiv_pos_iff [of "2 ^ nat e" p] by simp
    then show ?thesis
      using True round_half_even_ge [of p "2 ^ nat e"] by (simp add: m_def)
  next
    case False
    have "0 < p * 2 ^ nat (- e)"
      using assms by simp
    then show ?thesis
      using False by (simp add: m_def round_half_even_def)
  qed
  then show ?thesis
    using assms unfolding round_to_double_def
    by (simp add: Let_def flip: e_def m_def)
qed

lemma binary64_nonzero_ints: "nonzero_ints_stay_nonzero (binary64 repr)"
  unfolding nonzero_ints_stay_nonzero_def
proof (intro allI impI)
  fix n :: int and f
  assume "n \<noteq> 0" and "float_of_int (binary64 repr) n = Some f"
  then have "round_to_double (n < 0) \<bar>n\<bar> 1 = f"
    by (auto simp: binary64_def f64_of_int_def split: float64.splits)
  moreover have "0 < \<bar>n\<bar>" using \<open>n \<noteq> 0\<close> by simp
  ultimately show "float_sign (binary64 repr) f \<noteq> Zero"
    using round_to_double_int_nonzero [of "\<bar>n\<bar>" "n < 0"] by (simp add: binary64_def)
qed

lemma f64_of_str_1_0: "f64_of_str ''1.0'' = Some (Finite False 4503599627370496 (- 52))"
  by code_simp

lemma f64_of_str_0_85: "f64_of_str ''0.85'' = Some (Finite False 7656119366529843 (- 53))"
  by code_simp

lemma f64_of_str_100: "f64_of_str ''100'' = Some (Finite False 7036874417766400 (- 46))"
  by code_simp

lemma f64_div_0_85_by_1:
  "f64_div (Finite False 7656119366529843 (- 53)) (Finite False 4503599627370496 (- 52))
     = Finite False 7656119366529843 (- 53)"
  by code_simp

lemma f64_mul_100_by_0_85:
  "f64_mul (Finite False 7036874417766400 (- 46)) (Finite False 7656119366529843 (- 53))
     = Finite False 5981343255101440 (- 46)"
  by code_simp

lemma f64_fixed_85: "f64_fixed 4 (Finite False 5981343255101440 (- 46)) = ''85.0000''"
  by code_simp

lemma f64_fixed_0_85: "f64_fixed 6 (Finite False 7656119366529843 (- 53)) = ''0.850000''"
  by code_simp

lemma upper_USD_EUR: "upper ''USD'' = ''USD''" "upper ''EUR'' = ''EUR''"
  by (simp_all add: upper_def upper_char_def)

lemma f64_of_str_abc: "f64_of_str ''abc'' = None"
  by code_simp

section \<open>The properties\<close>

text \<open>
  C1. Each of the four fetching operations returns a string and never an exception,
  whatever the transport and the parser do. When the request fails (the transport or the
  parser raises, or the document carries no true \<^verbatim>\<open>success\<close>), or when anything else
  in the body of the operation raises, the string begins with \<^verbatim>\<open>"Error: "\<close>.
\<close>

theorem fetch_operations_report_failure:
  "reports_failure (get_rates rt self requests_get api_key)
     (request_fails rt requests_get (get_rates_url self api_key) (stored_timeout self)
      \<or> isl (get_rates_body rt self requests_get api_key))
   \<and> reports_failure (get_specific_rates rt self requests_get currencies api_key)
     (request_fails rt requests_get (get_specific_rates_url self currencies api_key)
        (stored_timeout self)
      \<or> isl (get_specific_rates_body rt self requests_get currencies api_key))
   \<and> reports_failure
     (convert_currency rt self requests_get amount source_currency target_currency api_key)
     (request_fails rt requests_get
        (convert_currency_url self source_currency target_currency api_key) (stored_timeout self)
      \<or> isl (convert_currency_body rt self requests_get amount source_currency target_currency
               api_key))
   \<and> reports_failure (check_supported_currencies rt self requests_get api_key)
     (request_fails rt requests_get (check_supported_currencies_url self api_key)
        (stored_timeout self)
      \<or> isl (check_supported_currencies_body rt self requests_get api_key))"
  using get_rates_reports get_specific_rates_reports convert_currency_reports
    check_supported_currencies_reports
  by blast

theorem fetch_operations_report_failure_witness:
  "(case get_rates (binary64 no_repr) book0 refuses ''k'' of
      Inl e \<Rightarrow> False | Inr s \<Rightarrow> starts_with s ''Error: '')
   \<and> (case get_specific_rates (binary64 no_repr) book0 refuses ''usd'' ''k'' of
      Inl e \<Rightarrow> False | Inr s \<Rightarrow> starts_with s ''Error: '')
   \<and> (case convert_currency (binary64 no_repr) book0 refuses ''100'' ''usd'' ''eur'' ''k'' of
      Inl e \<Rightarrow> False | Inr s \<Rightarrow> starts_with s ''Error: '')
   \<and> (case check_supported_currencies (binary64 no_repr) book0 refuses ''k'' of
      Inl e \<Rightarrow> False | Inr s \<Rightarrow> starts_with s ''Error: '')"
  using fetch_operations_report_failure [of "binary64 no_repr" book0 refuses "''k''" "''usd''"
          "''100''" "''usd''" "''eur''"]
  by (auto simp: reports_failure_def request_fails_def refuses_def split: sum.splits)

text \<open>
  C2. With the amount \<^verbatim>\<open>"100"\<close>, from USD to EUR, on a success document whose rates
  hold 1.0 for USD and 0.85 for EUR and whose date is \<open>d\<close>, \<^verbatim>\<open>convert_currency\<close>
  returns \<^verbatim>\<open>"Converted 100 USD to 85.0000 EUR (rate: 0.850000) on d"\<close>: the amount as
  it was given, the result with 4 decimals, the rate with 6. The floats are binary64.
\<close>

theorem convert_currency_100_USD_to_EUR:
  assumes "returns_document requests_get (convert_currency_url self ''USD'' ''EUR'' api_key)
             (stored_timeout self) (PDict doc)"
      and "lookup doc ''success'' (PBool False) = PBool True"
      and "lookup doc ''rates'' (PDict []) = PDict rates"
      and "f64_of_str ''1.0'' = Some usd" and "map_of rates ''USD'' = Some (PFloat usd)"
      and "f64_of_str ''0.85'' = Some eur" and "map_of rates ''EUR'' = Some (PFloat eur)"
      and "lookup doc ''date'' (PStr ''unknown'') = PStr d"
  shows "convert_currency (binary64 repr) self requests_get ''100'' ''USD'' ''EUR'' api_key =
           Inr (''Converted 100 USD to 85.0000 EUR (rate: 0.850000) on '' @ d)"
proof -
  have usd: "usd = Finite False 4503599627370496 (- 52)"
    using assms(4) by (simp add: f64_of_str_1_0)
  have eur: "eur = Finite False 7656119366529843 (- 53)"
    using assms(6) by (simp add: f64_of_str_0_85)
  have "convert_currency_render (binary64 repr) ''100'' ''USD'' ''EUR'' (PDict doc) =
          Inr (''Converted 100 USD to 85.0000 EUR (rate: 0.850000) on '' @ d)"
    using assms(2,3,5,7,8)
    by (simp add: convert_currency_render_def upper_USD_EUR lookup_def usd eur binary64_def
        py_float_def f64_of_str_100 py_truediv_def f64_div_0_85_by_1 f64_mul_100_by_0_85
        f64_fixed_85 f64_fixed_0_85
        del: f64_div.simps f64_mul.simps f64_fixed.simps)
  then show ?thesis
    using convert_currency_body_document [OF assms(1), of "binary64 repr" "''100''"]
    by (simp add: convert_currency_handlers)
qed

theorem convert_currency_100_USD_to_EUR_witness:
  "convert_currency (binary64 no_repr) book0 (serves usd_eur_doc) ''100'' ''USD'' ''EUR'' ''k'' =
     Inr ''Converted 100 USD to 85.0000 EUR (rate: 0.850000) on 2024-05-01''"
  using convert_currency_100_USD_to_EUR [of "serves usd_eur_doc" book0 "''k''"
          "[(''success'', PBool True), (''date'', PStr ''2024-05-01''),
            (''rates'', PDict [(''USD'', PFloat (Finite False 4503599627370496 (- 52))),
                               (''EUR'', PFloat (Finite False 7656119366529843 (- 53)))])]"
          "[(''USD'', PFloat (Finite False 4503599627370496 (- 52))),
            (''EUR'', PFloat (Finite False 7656119366529843 (- 53)))]"
          "Finite False 4503599627370496 (- 52)" "Finite False 7656119366529843 (- 53)"
          "''2024-05-01''" no_repr]
  by (simp add: returns_document_def serves_def usd_eur_doc_def lookup_def f64_of_str_1_0
      f64_of_str_0_85)

text \<open>
  C3. In \<^verbatim>\<open>convert_currency\<close>, on a document without a true \<^verbatim>\<open>success\<close> the answer is
  the API failure, whatever the rates and the amount; on a success document where the
  rate of the source or of the target currency is missing or falsy the answer is
  \<^verbatim>\<open>"Error: Could not find rates for ..."\<close>, whatever the amount; and only with both
  rates there does an amount that is no number give \<^verbatim>\<open>"Error: Invalid amount ..."\<close>.
\<close>

theorem convert_currency_check_order:
  assumes "returns_document requests_get
             (convert_currency_url self source_currency target_currency api_key)
             (stored_timeout self) (PDict doc)"
  shows "(\<not> truthy rt (lookup doc ''success'' (PBool False)) \<longrightarrow>
            lookup doc ''error'' (PDict []) = PDict error \<longrightarrow>
            convert_currency rt self requests_get amount source_currency target_currency api_key =
              Inr (''Error: '' @ (case map_of error ''info'' of
                                    None \<Rightarrow> ''API request failed''
                                  | Some info \<Rightarrow> py_str rt info)))
       \<and> (truthy rt (lookup doc ''success'' (PBool False)) \<longrightarrow>
            lookup doc ''rates'' (PDict []) = PDict rates \<longrightarrow>
            (\<not> truthy rt (lookup rates (upper source_currency) PNone)
               \<or> \<not> truthy rt (lookup rates (upper target_currency) PNone) \<longrightarrow>
             convert_currency rt self requests_get amount source_currency target_currency api_key =
               Inr (''Error: Could not find rates for '' @ source_currency @ '' or ''
                    @ target_currency))
          \<and> (truthy rt (lookup rates (upper source_currency) PNone)
               \<and> truthy rt (lookup rates (upper target_currency) PNone)
               \<and> float_of_str rt amount = None \<longrightarrow>
             convert_currency rt self requests_get amount source_currency target_currency api_key =
               Inr (''Error: Invalid amount '' @ [CHR 0x27] @ amount @ [CHR 0x27]
                    @ ''. Please provide a numeric value.'')))"
proof -
  note body = convert_currency_body_document [OF assms, of rt amount]
  show ?thesis
    by (auto simp: convert_currency_handlers body convert_currency_render_def api_failure_dict
        py_float_def invalid_amount_def quoted_def)
qed

theorem convert_currency_check_order_witness:
  "convert_currency (binary64 no_repr) book0 (serves failure_doc) ''abc'' ''usd'' ''eur'' ''k''
     = Inr ''Error: invalid access key''
   \<and> convert_currency (binary64 no_repr) book0 (serves usd_only_doc) ''abc'' ''usd'' ''eur'' ''k''
     = Inr ''Error: Could not find rates for usd or eur''
   \<and> convert_currency (binary64 no_repr) book0 (serves usd_eur_doc) ''abc'' ''usd'' ''eur'' ''k''
     = Inr (''Error: Invalid amount '' @ [CHR 0x27] @ ''abc'' @ [CHR 0x27]
            @ ''. Please provide a numeric value.'')"
  using convert_currency_check_order [of "serves failure_doc" book0 "''usd''" "''eur''" "''k''"
          "[(''success'', PBool False),
            (''error'', PDict [(''code'', PInt 101), (''info'', PStr ''invalid access key'')])]"
          "binary64 no_repr"
          "[(''code'', PInt 101), (''info'', PStr ''invalid access key'')]" "''abc''" "[]"]
        convert_currency_check_order [of "serves usd_only_doc" book0 "''usd''" "''eur''" "''k''"
          "[(''success'', PBool True), (''date'', PStr ''2024-05-01''),
            (''rates'', PDict [(''USD'', PFloat (Finite False 4503599627370496 (- 52)))])]"
          "binary64 no_repr" "[]" "''abc''"
          "[(''USD'', PFloat (Finite False 4503599627370496 (- 52)))]"]
        convert_currency_check_order [of "serves usd_eur_doc" book0 "''usd''" "''eur''" "''k''"
          "[(''success'', PBool True), (''date'', PStr ''2024-05-01''),
            (''rates'', PDict [(''USD'', PFloat (Finite False 4503599627370496 (- 52))),
                               (''EUR'', PFloat (Finite False 7656119366529843 (- 53)))])]"
          "binary64 no_repr" "[]" "''abc''"
          "[(''USD'', PFloat (Finite False 4503599627370496 (- 52))),
            (''EUR'', PFloat (Finite False 7656119366529843 (- 53)))]"]
  by (simp add: returns_document_def serves_def failure_doc_def usd_only_doc_def usd_eur_doc_def
      lookup_def upper_def upper_char_def binary64_def f64_of_str_abc)

text \<open>
  C4. On a success document with at least 10 rates, \<^verbatim>\<open>get_rates\<close> returns the header,
  then the 10 rates with the smallest currency codes as \<^verbatim>\<open>"CODE: rate"\<close> in ascending
  order of code, joined by \<^verbatim>\<open>", "\<close>, then the count of the remaining rates, which is
  the total minus 10.
\<close>

theorem get_rates_first_ten:
  assumes "returns_document requests_get (get_rates_url self api_key) (stored_timeout self) (PDict doc)"
      and "truthy rt (lookup doc ''success'' (PBool False))"
      and "lookup doc ''rates'' (PDict []) = PDict rates"
      and "dict_ok rates"
      and "10 \<le> length rates"
  shows "let entries = take 10 (sorted_items rates)
         in get_rates rt self requests_get api_key =
              Inr (''Exchange rates for '' @ py_str rt (lookup doc ''base'' (PStr ''EUR''))
                   @ '' on '' @ py_str rt (lookup doc ''date'' (PStr ''unknown'')) @ '': ''
                   @ join '', '' (map (\<lambda>(code, rate). code @ '': '' @ py_str rt rate) entries)
                   @ '' (and '' @ str_int (int (length rates) - 10)
                   @ '' more currencies available)'')
            \<and> length entries = 10
            \<and> sorted_wrt (<) (map fst entries)
            \<and> set entries \<subseteq> set rates
            \<and> (\<forall>other \<in> set rates - set entries. \<forall>entry \<in> set entries. fst entry < fst other)"
proof -
  have entry: "rate_entry rt = (\<lambda>(code, rate). code @ '': '' @ py_str rt rate)"
    by (auto simp: rate_entry_def fun_eq_iff)
  show ?thesis
    unfolding Let_def
    using get_rates_success [OF assms(1,2,3)] first_sorted_length [OF assms(5)]
      first_sorted_strict [OF assms(4), of 10] first_sorted_subset [of 10 rates]
      first_sorted_least [OF assms(4), of _ 10]
    by (simp add: entry)
qed

theorem get_rates_first_ten_witness:
  "get_rates (binary64 no_repr) book0 (serves rates_doc) ''k'' =
     Inr (''Exchange rates for EUR on 2024-05-01: AED: 4, AUD: 4, CAD: 5, CHF: 1, CNY: 8, ''
          @ ''GBP: 3, JPY: 160, MXN: 20, NZD: 6, SEK: 11 (and 2 more currencies available)'')"
  using get_rates_first_ten [of "serves rates_doc" book0 "''k''" _ "binary64 no_repr" rates12]
  by (simp add: returns_document_def serves_def lookup_def rates_doc_def rates12_def dict_ok_def
      sorted_items_def Let_def str_int_def str_digits.simps)

text \<open>
  C5. On a document without a true \<^verbatim>\<open>success\<close>, \<^verbatim>\<open>get_rates\<close> returns
  \<^verbatim>\<open>"Error: "\<close> followed by the \<^verbatim>\<open>info\<close> of the error object, and
  \<^verbatim>\<open>"Error: API request failed"\<close> when there is no \<^verbatim>\<open>info\<close>.
\<close>

theorem get_rates_api_failure:
  assumes "returns_document requests_get (get_rates_url self api_key) (stored_timeout self) (PDict doc)"
      and "\<not> truthy rt (lookup doc ''success'' (PBool False))"
      and "lookup doc ''error'' (PDict []) = PDict error"
  shows "get_rates rt self requests_get api_key =
           Inr (''Error: '' @ (case map_of error ''info'' of
                                 None \<Rightarrow> ''API request failed''
                               | Some info \<Rightarrow> py_str rt info))"
proof -
  have "get_rates_body rt self requests_get api_key = get_rates_render rt (PDict doc)"
    using assms(1) by (simp add: get_rates_body_def returns_documentD)
  also have "\<dots> = api_failure rt (PDict doc)"
    using assms(2) by (simp add: get_rates_render_def)
  finally show ?thesis
    using assms(3) by (simp add: get_rates_def try_except_Exception api_failure_dict)
qed

theorem get_rates_api_failure_witness:
  "get_rates (binary64 no_repr) book0
     (serves (PDict [(''success'', PBool False),
                     (''error'', PDict [(''code'', PInt 101), (''info'', PStr ''invalid access key'')])]))
     ''k'' = Inr ''Error: invalid access key''
   \<and> get_rates (binary64 no_repr) book0 (serves (PDict [(''success'', PBool False)])) ''k''
       = Inr ''Error: API request failed''"
  using get_rates_api_failure [of "serves (PDict [(''success'', PBool False),
                     (''error'', PDict [(''code'', PInt 101), (''info'', PStr ''invalid access key'')])])"
           book0 "''k''" _ "binary64 no_repr" "[(''code'', PInt 101), (''info'', PStr ''invalid access key'')]"]
        get_rates_api_failure [of "serves (PDict [(''success'', PBool False)])"
           book0 "''k''" _ "binary64 no_repr" "[]"]
  by (simp add: returns_document_def serves_def lookup_def)

text \<open>
  C6. On a success document, \<^verbatim>\<open>get_specific_rates\<close> renders every rate of the
  document, however many there are, in the order the document lists them.
\<close>

theorem get_specific_rates_all_rates:
  assumes "returns_document requests_get (get_specific_rates_url self currencies api_key)
             (stored_timeout self) (PDict doc)"
      and "truthy rt (lookup doc ''success'' (PBool False))"
      and "lookup doc ''rates'' (PDict []) = PDict rates"
  shows "get_specific_rates rt self requests_get currencies api_key =
           Inr (''Exchange rates for '' @ py_str rt (lookup doc ''base'' (PStr ''EUR''))
                @ '' on '' @ py_str rt (lookup doc ''date'' (PStr ''unknown'')) @ '': ''
                @ join '', '' (map (\<lambda>(code, rate). code @ '': '' @ py_str rt rate) rates))"
proof -
  have entry: "rate_entry rt = (\<lambda>(code, rate). code @ '': '' @ py_str rt rate)"
    by (auto simp: rate_entry_def fun_eq_iff)
  have "get_specific_rates_body rt self requests_get currencies api_key
          = get_specific_rates_render rt (PDict doc)"
    using assms(1) by (simp add: get_specific_rates_body_def returns_documentD)
  then show ?thesis
    using assms(2,3)
    by (simp add: get_specific_rates_def try_except_Exception get_specific_rates_render_def entry)
qed

theorem get_specific_rates_all_rates_witness:
  "get_specific_rates (binary64 no_repr) book0 (serves rates_doc) ''usd,gbp'' ''k'' =
     Inr (''Exchange rates for EUR on 2024-05-01: USD: 2, GBP: 3, JPY: 160, AUD: 4, CAD: 5, ''
          @ ''CHF: 1, CNY: 8, SEK: 11, NZD: 6, MXN: 20, AED: 4, ZAR: 19'')"
  using get_specific_rates_all_rates [of "serves rates_doc" book0 "''usd,gbp''" "''k''" _
          "binary64 no_repr" rates12]
  by (simp add: returns_document_def serves_def lookup_def rates_doc_def rates12_def
      str_int_def str_digits.simps)

text \<open>
  C7. On a success document with at least 20 symbols, \<^verbatim>\<open>check_supported_currencies\<close>
  returns, under a header that states the total number of symbols, the 20 symbols with the
  smallest codes as \<^verbatim>\<open>"CODE: name"\<close> in ascending order of code, joined by \<^verbatim>\<open>", "\<close>.
\<close>

theorem check_supported_currencies_first_twenty:
  assumes "returns_document requests_get (check_supported_currencies_url self api_key)
             (stored_timeout self) (PDict doc)"
      and "truthy rt (lookup doc ''success'' (PBool False))"
      and "lookup doc ''symbols'' (PDict []) = PDict symbols"
      and "dict_ok symbols"
      and "20 \<le> length symbols"
  shows "let entries = take 20 (sorted_items symbols)
         in check_supported_currencies rt self requests_get api_key =
              Inr (''Supported currencies (first 20 of '' @ str_int (int (length symbols))
                   @ '' total): ''
                   @ join '', '' (map (\<lambda>(code, name). code @ '': '' @ py_str rt name) entries))
            \<and> length entries = 20
            \<and> sorted_wrt (<) (map fst entries)
            \<and> set entries \<subseteq> set symbols
            \<and> (\<forall>other \<in> set symbols - set entries. \<forall>entry \<in> set entries. fst entry < fst other)"
proof -
  have entry: "currency_entry rt = (\<lambda>(code, name). code @ '': '' @ py_str rt name)"
    by (auto simp: currency_entry_def fun_eq_iff)
  have "check_supported_currencies_body rt self requests_get api_key
          = check_supported_currencies_render rt (PDict doc)"
    using assms(1) by (simp add: check_supported_currencies_body_def returns_documentD)
  then have "check_supported_currencies rt self requests_get api_key =
              Inr (''Supported currencies (first 20 of '' @ str_int (int (length symbols))
                   @ '' total): ''
                   @ join '', '' (map (currency_entry rt) (take 20 (sorted_items symbols))))"
    using assms(2,3)
    by (simp add: check_supported_currencies_def try_except_Exception
        check_supported_currencies_render_def)
  then show ?thesis
    unfolding Let_def
    using first_sorted_length [OF assms(5)]
      first_sorted_strict [OF assms(4), of 20] first_sorted_subset [of 20 symbols]
      first_sorted_least [OF assms(4), of _ 20]
    by (simp add: entry)
qed

theorem check_supported_currencies_first_twenty_witness:
  "check_supported_currencies (binary64 no_repr) book0 (serves symbols_doc) ''k'' =
     Inr (''Supported currencies (first 20 of 21 total): AED: United Arab Emirates Dirham, ''
          @ ''AFN: Afghan Afghani, ALL: Albanian Lek, AMD: Armenian Dram, ''
          @ ''ANG: Netherlands Antillean Guilder, AOA: Angolan Kwanza, ARS: Argentine Peso, ''
          @ ''AUD: Australian Dollar, AWG: Aruban Florin, AZN: Azerbaijani Manat, ''
          @ ''BAM: Bosnia-Herzegovina Convertible Mark, BBD: Barbadian Dollar, ''
          @ ''BDT: Bangladeshi Taka, BGN: Bulgarian Lev, BHD: Bahraini Dinar, ''
          @ ''BIF: Burundian Franc, BMD: Bermudan Dollar, BND: Brunei Dollar, ''
          @ ''BOB: Bolivian Boliviano, EUR: Euro'')"
  using check_supported_currencies_first_twenty [of "serves symbols_doc" book0 "''k''"
          "[(''success'', PBool True), (''symbols'', PDict symbols21)]" "binary64 no_repr"
          symbols21]
  by (simp add: returns_document_def serves_def symbols_doc_def lookup_def symbols21_def
      dict_ok_def sorted_items_def Let_def str_int_def str_digits.simps)

text \<open>
  C8. Setting a timeout \<open>t > 0\<close> succeeds; the getter then returns \<open>t\<close> and every
  operation hands \<open>t\<close> to the transport as its deadline (its answer depends on the
  transport only through what the transport does under deadline \<open>t\<close>). Setting a timeout
  \<open>t \<le> 0\<close> raises \<^verbatim>\<open>ValueError\<close> and leaves the instance as it was.
\<close>

theorem timeout_setter_validates:
  "(positive rt t \<longrightarrow>
      fst (timeout_setter rt self t) = Inr ()
      \<and> timeout (snd (timeout_setter rt self t)) = t
      \<and> get_rates rt (snd (timeout_setter rt self t)) requests_get api_key
          = get_rates rt (snd (timeout_setter rt self t)) (\<lambda>url deadline. requests_get url t) api_key
      \<and> get_specific_rates rt (snd (timeout_setter rt self t)) requests_get currencies api_key
          = get_specific_rates rt (snd (timeout_setter rt self t))
              (\<lambda>url deadline. requests_get url t) currencies api_key
      \<and> convert_currency rt (snd (timeout_setter rt self t)) requests_get amount source_currency
            target_currency api_key
          = convert_currency rt (snd (timeout_setter rt self t))
              (\<lambda>url deadline. requests_get url t) amount source_currency target_currency api_key
      \<and> check_supported_currencies rt (snd (timeout_setter rt self t)) requests_get api_key
          = check_supported_currencies rt (snd (timeout_setter rt self t))
              (\<lambda>url deadline. requests_get url t) api_key)
   \<and> (not_positive rt t \<longrightarrow>
        fst (timeout_setter rt self t) = Inl (Exc ValueError ''timeout must be positive'')
        \<and> snd (timeout_setter rt self t) = self
        \<and> timeout (snd (timeout_setter rt self t)) = timeout self)"
  by (auto simp: timeout_setter_def py_le_zero_positive py_le_zero_not_positive timeout_def
      get_rates_def get_rates_body_def get_specific_rates_def get_specific_rates_body_def
      convert_currency_def convert_currency_body_def check_supported_currencies_def
      check_supported_currencies_body_def)

theorem timeout_setter_validates_witness:
  "fst (timeout_setter (binary64 no_repr) book0 (PInt 5)) = Inr ()
   \<and> timeout (snd (timeout_setter (binary64 no_repr) book0 (PInt 5))) = PInt 5
   \<and> fst (timeout_setter (binary64 no_repr) book0 (PFloat (Finite True 0 0)))
       = Inl (Exc ValueError ''timeout must be positive'')
   \<and> timeout (snd (timeout_setter (binary64 no_repr) book0 (PFloat (Finite True 0 0))))
       = PFloat (Finite False 8444249301319680 (- 48))"
  using timeout_setter_validates [of "binary64 no_repr" "PInt 5" book0]
        timeout_setter_validates [of "binary64 no_repr" "PFloat (Finite True 0 0)" book0]
  by (simp add: positive_def not_positive_def binary64_def book0_def timeout_def)

text \<open>
  C9. In \<^verbatim>\<open>convert_currency\<close> an exception of class \<^verbatim>\<open>ValueError\<close>, whether the
  transport or the parser raises it or any other step of the body, is answered with the
  invalid-amount message: the \<^verbatim>\<open>ValueError\<close> handler comes first. The parse error of a
  malformed body is of that class.
\<close>

theorem convert_currency_ValueError_is_invalid_amount:
  assumes "isinstance_ValueError (cls e)"
      and "transport_raises requests_get
             (convert_currency_url self source_currency target_currency api_key)
             (stored_timeout self) e
           \<or> convert_currency_body rt self requests_get amount source_currency target_currency
               api_key = Inl e"
  shows "convert_currency rt self requests_get amount source_currency target_currency api_key =
           Inr (''Error: Invalid amount '' @ [CHR 0x27] @ amount @ [CHR 0x27]
                @ ''. Please provide a numeric value.'')
         \<and> isinstance_ValueError JSONDecodeError"
proof -
  have "convert_currency_body rt self requests_get amount source_currency target_currency api_key
          = Inl e"
    using assms(2) by (auto simp: convert_currency_body_def transport_raises_bind)
  then show ?thesis
    using assms(1) by (simp add: convert_currency_handlers invalid_amount_def quoted_def)
qed

theorem convert_currency_ValueError_is_invalid_amount_witness:
  "convert_currency (binary64 no_repr) book0 serves_garbage ''100'' ''usd'' ''eur'' ''k''
     = Inr (''Error: Invalid amount '' @ [CHR 0x27] @ ''100'' @ [CHR 0x27]
            @ ''. Please provide a numeric value.'')"
  using convert_currency_ValueError_is_invalid_amount
          [of "Exc JSONDecodeError ''Expecting value: line 1 column 1 (char 0)''"
              serves_garbage book0 "''usd''" "''eur''" "''k''" "binary64 no_repr" "''100''"]
  by (simp add: transport_raises_def serves_garbage_def)

text \<open>
  C10. The division of \<^verbatim>\<open>convert_currency\<close> never raises \<^verbatim>\<open>ZeroDivisionError\<close>: a
  truthy divisor is not zero, and a falsy source rate is answered with
  \<^verbatim>\<open>"Error: Could not find rates for ..."\<close> before the division.
\<close>

theorem convert_currency_never_divides_by_zero:
  assumes "nonzero_ints_stay_nonzero rt"
  shows "(\<forall>e. convert_currency_render rt amount source_currency target_currency data = Inl e
              \<longrightarrow> cls e \<noteq> ZeroDivisionError)
       \<and> (\<forall>target_rate source_rate e.
             truthy rt source_rate \<longrightarrow> py_truediv rt target_rate source_rate = Inl e
               \<longrightarrow> cls e \<noteq> ZeroDivisionError)
       \<and> (\<forall>doc rates.
             data = PDict doc \<longrightarrow> truthy rt (lookup doc ''success'' (PBool False)) \<longrightarrow>
             lookup doc ''rates'' (PDict []) = PDict rates \<longrightarrow>
             \<not> truthy rt (lookup rates (upper source_currency) PNone) \<longrightarrow>
             convert_currency_render rt amount source_currency target_currency data =
               Inr (''Error: Could not find rates for '' @ source_currency @ '' or ''
                    @ target_currency))"
proof (intro conjI allI impI)
  fix e
  assume "convert_currency_render rt amount source_currency target_currency data = Inl e"
  then show "cls e \<noteq> ZeroDivisionError"
    unfolding convert_currency_render_def
    by (auto simp: bind_exc_Inl_iff Let_def split: if_splits
        dest: py_get_not_zero_division api_failure_not_zero_division py_float_not_zero_division
          py_truediv_guarded [OF assms])
next
  fix target_rate source_rate e
  assume "truthy rt source_rate" "py_truediv rt target_rate source_rate = Inl e"
  then show "cls e \<noteq> ZeroDivisionError"
    by (rule py_truediv_guarded [OF assms])
next
  fix doc rates
  assume "data = PDict doc" "truthy rt (lookup doc ''success'' (PBool False))"
    "lookup doc ''rates'' (PDict []) = PDict rates"
    "\<not> truthy rt (lookup rates (upper source_currency) PNone)"
  then show "convert_currency_render rt amount source_currency target_currency data =
               Inr (''Error: Could not find rates for '' @ source_currency @ '' or ''
                    @ target_currency)"
    by (simp add: convert_currency_render_def)
qed

theorem convert_currency_never_divides_by_zero_witness:
  "convert_currency_render (binary64 no_repr) ''100'' ''usd'' ''eur'' zero_usd_doc
     = Inr ''Error: Could not find rates for usd or eur''"
  using convert_currency_never_divides_by_zero [OF binary64_nonzero_ints,
          of no_repr "''100''" "''usd''" "''eur''" zero_usd_doc]
  by (simp add: zero_usd_doc_def lookup_def upper_def upper_char_def)

end
